theory Spec2Isabelle
  imports Main "HOL-Library.Sublist"
begin

section \<open>The host: file system, processes, platform\<close>

text \<open>
  The model of \<^verbatim>\<open>src/model/docker.ts\<close> and \<^verbatim>\<open>src/model/action.ts\<close>.
  Everything the two files read from or do to their host is a field of the record
  \<open>world\<close>: the entries of the file system, the decision of the operating system to let an
  entry be created or unlinked, the behaviour of every child process (whether it starts and
  its exit code, and whether it writes to its standard error stream), the value of
  \<^verbatim>\<open>process.platform\<close>, and the list of effects performed so far.
\<close>

datatype node = File string | Dir

datatype outcome = LaunchFailure | Exited int

record exec_options =
  silent :: bool
  ignoreReturnCode :: bool
  failOnStdErr :: bool
  cwd :: "string option"

datatype event =
    ReadFile string
  | MkDir string
  | Unlink string
  | ExecCall string "string list" exec_options

datatype error =
    Error string
  | SystemError string string
  | ProcessLaunchError string
  | WorkingDirectoryMissing string
  | ProcessFailed string int
  | ProcessStderr string

record world =
  files :: "string \<Rightarrow> node option"
  permitted :: "string \<Rightarrow> bool"
  process :: "string \<Rightarrow> string list \<Rightarrow> outcome"
  writesToStderr :: "string \<Rightarrow> string list \<Rightarrow> bool"
  platform :: string
  trace :: "event list"

definition log :: "event \<Rightarrow> world \<Rightarrow> world" where
  "log e w = w\<lparr>trace := trace w @ [e]\<rparr>"

subsection \<open>node:fs\<close>

definition existsSync :: "world \<Rightarrow> string \<Rightarrow> bool" where
  "existsSync w p = (files w p \<noteq> None)"

definition mkdirSync :: "world \<Rightarrow> string \<Rightarrow> (error + unit) \<times> world" where
  "mkdirSync w p =
     (if files w p \<noteq> None then (Inl (SystemError ''mkdir'' p), w)
      else if permitted w p then (Inr (), log (MkDir p) (w\<lparr>files := (files w)(p \<mapsto> Dir)\<rparr>))
      else (Inl (SystemError ''mkdir'' p), w))"

text \<open>
  An entry is a file, with its bytes, or a directory. \<^verbatim>\<open>existsSync\<close> is true of both;
  \<^verbatim>\<open>readFileSync\<close> and \<^verbatim>\<open>rmSync\<close> (called without options) raise on a directory
  and on a missing entry; \<^verbatim>\<open>mkdirSync\<close> raises on an existing entry. Creating and
  unlinking need the consent of the operating system, \<open>permitted\<close>. Decoding with the
  encoding \<^verbatim>\<open>'ascii'\<close> clears the highest bit of every byte.
\<close>

fun ascii :: "char \<Rightarrow> char" where
  "ascii (Char b0 b1 b2 b3 b4 b5 b6 b7) = Char b0 b1 b2 b3 b4 b5 b6 False"

definition readFileSync :: "world \<Rightarrow> string \<Rightarrow> (error + string) \<times> world" where
  "readFileSync w p =
     (case files w p of
        None \<Rightarrow> (Inl (SystemError ''open'' p), w)
      | Some Dir \<Rightarrow> (Inl (SystemError ''read'' p), w)
      | Some (File bytes) \<Rightarrow> (Inr (map ascii bytes), log (ReadFile p) w))"

definition rmSync :: "world \<Rightarrow> string \<Rightarrow> (error + unit) \<times> world" where
  "rmSync w p =
     (case files w p of
        None \<Rightarrow> (Inl (SystemError ''rm'' p), w)
      | Some Dir \<Rightarrow> (Inl (SystemError ''rm'' p), w)
      | Some (File bytes) \<Rightarrow>
          (if permitted w p then (Inr (), log (Unlink p) (w\<lparr>files := (files w)(p := None)\<rparr>))
           else (Inl (SystemError ''rm'' p), w)))"

subsection \<open>The exec primitive of the actions toolkit\<close>

text \<open>
  \<^verbatim>\<open>exec(commandLine, args, options)\<close> of \<^verbatim>\<open>@actions/exec\<close> starts a child process
  and waits for it. It rejects
  \<^item> when the process cannot be started;
  \<^item> when the option \<^verbatim>\<open>cwd\<close> names a directory that does not exist (the process is
    not started then);
  \<^item> when the process ends with a non-zero exit code, unless the option
    \<^verbatim>\<open>ignoreReturnCode\<close> is set (the option's default is to fail on a non-zero code);
  \<^item> when the process has written to its standard error stream and the option
    \<^verbatim>\<open>failOnStdErr\<close> is set, whatever the exit code;

  in this order, and resolves to the exit code otherwise. These three options decide the
  result and are modelled, with \<^verbatim>\<open>silent\<close>, which \<^verbatim>\<open>docker.ts\<close> sets; an option that
  is absent is false. The other options (environment, input, streams, listeners, delay,
  quoting of arguments on Windows) shape the run of the child and the echo of its output.
  Absent arguments are the empty list. The call is recorded in the trace whatever its
  result.
\<close>

definition missingDirectory :: "world \<Rightarrow> string option \<Rightarrow> string option" where
  "missingDirectory w dir =
     (case dir of
        None \<Rightarrow> None
      | Some d \<Rightarrow> if d \<noteq> [] \<and> \<not> existsSync w d then Some d else None)"

definition exec :: "world \<Rightarrow> string \<Rightarrow> string list \<Rightarrow> exec_options \<Rightarrow> (error + int) \<times> world" where
  "exec w commandLine args options =
     (let w' = log (ExecCall commandLine args options) w in
      case process w commandLine args of
        LaunchFailure \<Rightarrow> (Inl (ProcessLaunchError commandLine), w')
      | Exited code \<Rightarrow>
          (case missingDirectory w (cwd options) of
             Some d \<Rightarrow> (Inl (WorkingDirectoryMissing d), w')
           | None \<Rightarrow>
               if code \<noteq> 0 \<and> \<not> ignoreReturnCode options
               then (Inl (ProcessFailed commandLine code), w')
               else if writesToStderr w commandLine args \<and> failOnStdErr options
               then (Inl (ProcessStderr commandLine), w')
               else (Inr code, w')))"

subsection \<open>node:path on a POSIX host\<close>

text \<open>
  \<^verbatim>\<open>path.join\<close> concatenates its non-empty arguments with a slash between them and
  normalises the result: empty segments and \<^verbatim>\<open>.\<close> segments are dropped, a \<^verbatim>\<open>..\<close>
  segment removes the segment before it (or is kept, in a relative path that has nothing
  left to remove, and dropped at the root of an absolute one), and a trailing slash is
  kept. With no non-empty argument, and for a path of which nothing is left, the result
  is \<^verbatim>\<open>.\<close> (or the root).
\<close>

fun splitSlash :: "string \<Rightarrow> string list" where
  "splitSlash [] = [[]]"
| "splitSlash (c # cs) =
     (if c = CHR ''/'' then [] # splitSlash cs
      else (case splitSlash cs of [] \<Rightarrow> [[c]] | s # ss \<Rightarrow> (c # s) # ss))"

fun joinSlash :: "string list \<Rightarrow> string" where
  "joinSlash [] = []"
| "joinSlash [s] = s"
| "joinSlash (s # t # ss) = s @ CHR ''/'' # joinSlash (t # ss)"

fun normalizeSegments :: "bool \<Rightarrow> string list \<Rightarrow> string list \<Rightarrow> string list" where
  "normalizeSegments allowAboveRoot res [] = res"
| "normalizeSegments allowAboveRoot res (s # ss) =
     (if s = [] \<or> s = ''.'' then normalizeSegments allowAboveRoot res ss
      else if s = ''..'' then
        (if res \<noteq> [] \<and> last res \<noteq> ''..''
         then normalizeSegments allowAboveRoot (butlast res) ss
         else if allowAboveRoot then normalizeSegments allowAboveRoot (res @ [''..'']) ss
         else normalizeSegments allowAboveRoot res ss)
      else normalizeSegments allowAboveRoot (res @ [s]) ss)"

definition normalizeString :: "string \<Rightarrow> bool \<Rightarrow> string" where
  "normalizeString path allowAboveRoot =
     joinSlash (normalizeSegments allowAboveRoot [] (splitSlash path))"

definition normalize :: "string \<Rightarrow> string" where
  "normalize path =
     (if path = [] then ''.''
      else
        let isAbsolute = (hd path = CHR ''/'');
            trailingSeparator = (last path = CHR ''/'');
            path' = normalizeString path (\<not> isAbsolute)
        in if path' = [] then
             (if isAbsolute then ''/'' else if trailingSeparator then ''./'' else ''.'')
           else
             (if isAbsolute then ''/'' else []) @ path' @ (if trailingSeparator then ''/'' else []))"

definition path_join :: "string \<Rightarrow> string \<Rightarrow> string" where
  "path_join a b =
     (if a = [] \<and> b = [] then ''.''
      else if a = [] then normalize b
      else if b = [] then normalize a
      else normalize (a @ ''/'' @ b))"

subsection \<open>String.prototype.trim\<close>

text \<open>
  \<^verbatim>\<open>trim\<close> removes white space and line terminators from both ends of a string; these
  are the ones among the first 256 code units.
\<close>

definition isWhiteSpace :: "char \<Rightarrow> bool" where
  "isWhiteSpace c =
     (c \<in> set [CHR 0x09, CHR 0x0A, CHR 0x0B, CHR 0x0C, CHR 0x0D, CHR 0x20, CHR 0xA0])"

definition trimStart :: "string \<Rightarrow> string" where
  "trimStart s = dropWhile isWhiteSpace s"

definition trimEnd :: "string \<Rightarrow> string" where
  "trimEnd s = rev (dropWhile isWhiteSpace (rev s))"

definition trim :: "string \<Rightarrow> string" where
  "trim s = trimEnd (trimStart s)"

section \<open>action.ts\<close>

record runner_context =
  runnerTemporaryPath :: string
  githubAction :: string

definition supportedPlatforms :: "string list" where
  "supportedPlatforms = [''linux'', ''win32'', ''darwin'']"

definition checkCompatibility :: "world \<Rightarrow> error + unit" where
  "checkCompatibility w =
     (let currentPlatform = platform w in
      if currentPlatform \<notin> set supportedPlatforms
      then Inl (Error (''Currently '' @ currentPlatform @ ''-platform is not supported''))
      else Inr ())"

section \<open>docker.ts\<close>

subsection \<open>The identity file and the removal of a leftover container\<close>

definition containerIdFilePath :: "'a runner_context_scheme \<Rightarrow> string" where
  "containerIdFilePath parameters =
     path_join (runnerTemporaryPath parameters) (''container_'' @ githubAction parameters)"

definition ensureContainerRemoval :: "world \<Rightarrow> 'a runner_context_scheme \<Rightarrow> (error + unit) \<times> world" where
  "ensureContainerRemoval w parameters =
     (let cidfile = containerIdFilePath parameters in
      if \<not> existsSync w cidfile then (Inr (), w)
      else
        (case readFileSync w cidfile of
           (Inl e, w1) \<Rightarrow> (Inl e, w1)
         | (Inr content, w1) \<Rightarrow>
             (let container = trim content in
              (case exec w1 ''docker'' [''exec'', container, ''/bin/bash'', ''-c'', ''/cleanup.sh'']
                      \<lparr>silent = False, ignoreReturnCode = False, failOnStdErr = False, cwd = None\<rparr> of
                 (Inl e, w2) \<Rightarrow> (Inl e, w2)
               | (Inr code1, w2) \<Rightarrow>
                   (case exec w2 ''docker'' [''rm'', ''--force'', ''--volumes'', container]
                           \<lparr>silent = True, ignoreReturnCode = False, failOnStdErr = False, cwd = None\<rparr> of
                      (Inl e, w3) \<Rightarrow> (Inl e, w3)
                    | (Inr code2, w3) \<Rightarrow> rmSync w3 cidfile)))))"

subsection \<open>The command builders\<close>

text \<open>
  \<^verbatim>\<open>DockerParameters\<close> is declared in \<^verbatim>\<open>shared-types\<close>; its fields are typed here as
  the builders use them. The four optional fields may be absent. A run's parameters carry
  the two fields of its \<^verbatim>\<open>RunnerContext\<close> as well.
\<close>

record docker_parameters = runner_context +
  workspace :: string
  actionFolder :: string
  runnerTempPath :: string
  sshAgent :: "string option"
  sshPublicKeysDirectoryPath :: "string option"
  gitPrivateToken :: "string option"
  dockerWorkspacePath :: string
  dockerCpuLimit :: string
  dockerMemoryLimit :: string
  dockerIsolationMode :: "string option"

text \<open>
  \<^verbatim>\<open>x ? f(x) : d\<close> for an optional string \<open>x\<close>: an absent and an empty string are
  both falsy. A template literal prints an absent value as \<^verbatim>\<open>undefined\<close>.
\<close>

fun cond :: "string option \<Rightarrow> (string \<Rightarrow> 'a) \<Rightarrow> 'a \<Rightarrow> 'a" where
  "cond None f d = d"
| "cond (Some s) f d = (if s = [] then d else f s)"

definition truthy :: "string option \<Rightarrow> bool" where
  "truthy x = cond x (\<lambda>s. True) False"

fun interpolate :: "string option \<Rightarrow> string" where
  "interpolate None = ''undefined''"
| "interpolate (Some s) = s"

text \<open>
  Every line of the two template literals ends with a space and a line continuation, and
  the next line starts with twelve spaces of indentation: the lines of the command are
  separated by thirteen spaces.
\<close>

definition continuation :: string where
  "continuation = '' '' @ ''            ''"

fun continued :: "string list \<Rightarrow> string" where
  "continued [] = []"
| "continued [l] = l"
| "continued (l # m # ls) = l @ continuation @ continued (m # ls)"

text \<open>
  \<^verbatim>\<open>ImageEnvironmentFactory.getEnvVarString\<close> is not among the sources. The builders take
  it as their first argument: a function of the parameters and of the additional variables
  (absent in the call of the Windows builder).
\<close>

type_synonym env_var_string = "docker_parameters \<Rightarrow> (string \<times> string) list option \<Rightarrow> string"

definition commandPrefix :: "string \<Rightarrow> string" where
  "commandPrefix img = (if img = ''alpine'' then ''/bin/sh'' else ''/bin/bash'')"

definition linuxCommandLines ::
  "env_var_string \<Rightarrow> string \<Rightarrow> docker_parameters \<Rightarrow> string \<Rightarrow> (string \<times> string) list \<Rightarrow> bool
     \<Rightarrow> string list" where
  \<open>linuxCommandLines getEnvVarString img parameters overrideCommands additionalVariables entrypointBash =
     (let githubHome = path_join (runnerTempPath parameters) ''_github_home'';
          githubWorkflow = path_join (runnerTempPath parameters) ''_github_workflow'';
          cidfile = containerIdFilePath parameters
      in
      [''docker run'',
       ''--workdir '' @ dockerWorkspacePath parameters,
       ''--cidfile='' @ cidfile,
       ''--rm'',
       getEnvVarString parameters (Some additionalVariables),
       ''--env GITHUB_WORKSPACE='' @ dockerWorkspacePath parameters,
       ''--env GIT_CONFIG_EXTENSIONS'',
       cond (gitPrivateToken parameters) (\<lambda>t. ''--env GIT_PRIVATE_TOKEN="'' @ t @ ''"'') [],
       cond (sshAgent parameters) (\<lambda>a. ''--env SSH_AUTH_SOCK=/ssh-agent'') [],
       ''--volume "'' @ githubHome @ ''":"/root:z"'',
       ''--volume "'' @ githubWorkflow @ ''":"/github/workflow:z"'',
       ''--volume "'' @ workspace parameters @ ''":"'' @ dockerWorkspacePath parameters @ '':z"'',
       ''--volume "'' @ actionFolder parameters @ ''/default-build-script:/UnityBuilderAction:z"'',
       ''--volume "'' @ actionFolder parameters @ ''/platforms/ubuntu/steps:/steps:z"'',
       ''--volume "'' @ actionFolder parameters @ ''/platforms/ubuntu/entrypoint.sh:/entrypoint.sh:z"'',
       ''--volume "'' @ actionFolder parameters @ ''/unity-config:/usr/share/unity3d/config/:z"'',
       ''--volume "'' @ actionFolder parameters @ ''/BlankProject":"/BlankProject:z"'',
       ''--cpus='' @ dockerCpuLimit parameters,
       ''--memory='' @ dockerMemoryLimit parameters,
       cond (sshAgent parameters) (\<lambda>a. ''--volume '' @ a @ '':/ssh-agent'') [],
       (if truthy (sshAgent parameters) \<and> \<not> truthy (sshPublicKeysDirectoryPath parameters)
        then ''--volume /home/runner/.ssh/known_hosts:/root/.ssh/known_hosts:ro''
        else []),
       cond (sshPublicKeysDirectoryPath parameters) (\<lambda>d. ''--volume '' @ d @ '':/root/.ssh:ro'') [],
       (if entrypointBash then ''--entrypoint '' @ commandPrefix img else []),
       img,
       (if entrypointBash then ''-c'' else commandPrefix img @ '' -c''),
       ''"'' @ (if overrideCommands \<noteq> [] then overrideCommands else ''/entrypoint.sh'') @ ''"''])\<close>

definition ensureDirectory :: "world \<Rightarrow> string \<Rightarrow> (error + unit) \<times> world" where
  "ensureDirectory w p = (if \<not> existsSync w p then mkdirSync w p else (Inr (), w))"

definition getLinuxCommand ::
  "world \<Rightarrow> env_var_string \<Rightarrow> string \<Rightarrow> docker_parameters \<Rightarrow> string \<Rightarrow> (string \<times> string) list
     \<Rightarrow> bool \<Rightarrow> (error + string) \<times> world" where
  "getLinuxCommand w getEnvVarString img parameters overrideCommands additionalVariables entrypointBash =
     (case ensureDirectory w (path_join (runnerTempPath parameters) ''_github_home'') of
        (Inl e, w1) \<Rightarrow> (Inl e, w1)
      | (Inr u, w1) \<Rightarrow>
          (case ensureDirectory w1 (path_join (runnerTempPath parameters) ''_github_workflow'') of
             (Inl e, w2) \<Rightarrow> (Inl e, w2)
           | (Inr u', w2) \<Rightarrow>
               (Inr (continued (linuxCommandLines getEnvVarString img parameters overrideCommands
                       additionalVariables entrypointBash)), w2)))"

definition windowsCommandLines :: "env_var_string \<Rightarrow> string \<Rightarrow> docker_parameters \<Rightarrow> string list" where
  \<open>windowsCommandLines getEnvVarString img parameters =
     [''docker run'',
      ''--workdir c:'' @ dockerWorkspacePath parameters,
      ''--rm'',
      getEnvVarString parameters None,
      ''--env GITHUB_WORKSPACE=c:'' @ dockerWorkspacePath parameters,
      cond (gitPrivateToken parameters) (\<lambda>t. ''--env GIT_PRIVATE_TOKEN="'' @ t @ ''"'') [],
      ''--volume "'' @ workspace parameters @ ''":"c:'' @ dockerWorkspacePath parameters @ ''"'',
      ''--volume "c:/regkeys":"c:/regkeys"'',
      ''--volume "C:/Program Files/Microsoft Visual Studio":"C:/Program Files/Microsoft Visual Studio"'',
      ''--volume "C:/Program Files (x86)/Microsoft Visual Studio":"C:/Program Files (x86)/Microsoft Visual Studio"'',
      ''--volume "C:/Program Files (x86)/Windows Kits":"C:/Program Files (x86)/Windows Kits"'',
      ''--volume "C:/ProgramData/Microsoft/VisualStudio":"C:/ProgramData/Microsoft/VisualStudio"'',
      ''--volume "'' @ actionFolder parameters @ ''/default-build-script":"c:/UnityBuilderAction"'',
      ''--volume "'' @ actionFolder parameters @ ''/platforms/windows":"c:/steps"'',
      ''--volume "'' @ actionFolder parameters @ ''/unity-config":"C:/ProgramData/Unity/config"'',
      ''--volume "'' @ actionFolder parameters @ ''/BlankProject":"c:/BlankProject"'',
      ''--cpus='' @ dockerCpuLimit parameters,
      ''--memory='' @ dockerMemoryLimit parameters,
      ''--isolation='' @ interpolate (dockerIsolationMode parameters),
      img,
      ''powershell c:/steps/entrypoint.ps1'']\<close>

definition getWindowsCommand :: "env_var_string \<Rightarrow> string \<Rightarrow> docker_parameters \<Rightarrow> string" where
  "getWindowsCommand getEnvVarString img parameters =
     continued (windowsCommandLines getEnvVarString img parameters)"

subsection \<open>Running the container\<close>

definition runCommand ::
  "world \<Rightarrow> env_var_string \<Rightarrow> string \<Rightarrow> docker_parameters \<Rightarrow> string \<Rightarrow> (string \<times> string) list
     \<Rightarrow> bool \<Rightarrow> (error + string) \<times> world" where
  "runCommand w getEnvVarString img parameters overrideCommands additionalVariables entrypointBash =
     (if platform w = ''linux''
      then getLinuxCommand w getEnvVarString img parameters overrideCommands additionalVariables
             entrypointBash
      else if platform w = ''win32''
      then (Inr (getWindowsCommand getEnvVarString img parameters), w)
      else (Inl (Error (''Operation system, '' @ platform w @ '', is not supported yet.'')), w))"

definition run ::
  "world \<Rightarrow> env_var_string \<Rightarrow> string \<Rightarrow> docker_parameters \<Rightarrow> bool \<Rightarrow> string
     \<Rightarrow> (string \<times> string) list \<Rightarrow> exec_options \<Rightarrow> bool \<Rightarrow> (error + int) \<times> world" where
  "run w getEnvVarString img parameters silent' overrideCommands additionalVariables options
       entrypointBash =
     (case runCommand w getEnvVarString img parameters overrideCommands additionalVariables
             entrypointBash of
        (Inl e, w1) \<Rightarrow> (Inl e, w1)
      | (Inr command, w1) \<Rightarrow>
          exec w1 command [] (options\<lparr>silent := silent', ignoreReturnCode := True\<rparr>))"

section \<open>Vocabulary of the properties\<close>

text \<open>
  The effects of a complete removal of the container \<open>container\<close> whose identity file is
  \<open>cidfile\<close>, in the order of \<open>ensureContainerRemoval\<close>.
\<close>

definition removal_events :: "string \<Rightarrow> string \<Rightarrow> event list" where
  "removal_events cidfile container =
     [ReadFile cidfile,
      ExecCall ''docker'' [''exec'', container, ''/bin/bash'', ''-c'', ''/cleanup.sh'']
        \<lparr>silent = False, ignoreReturnCode = False, failOnStdErr = False, cwd = None\<rparr>,
      ExecCall ''docker'' [''rm'', ''--force'', ''--volumes'', container]
        \<lparr>silent = True, ignoreReturnCode = False, failOnStdErr = False, cwd = None\<rparr>,
      Unlink cidfile]"

text \<open>
  The specification's account of a removal, for every host whose identity file exists: the
  content is trimmed of trailing whitespace, the four effects happen, the file is gone.
\<close>

definition described_removal :: "world \<Rightarrow> string \<Rightarrow> string \<Rightarrow> world" where
  "described_removal w cidfile content =
     w\<lparr>files := (files w)(cidfile := None),
       trace := trace w @ removal_events cidfile (trimEnd content)\<rparr>"

subsection \<open>Concrete hosts and parameters\<close>

definition example_context :: runner_context where
  "example_context = \<lparr>runnerTemporaryPath = ''/home/runner/work/_temp'', githubAction = ''run1''\<rparr>"

definition leftover_host :: "(string \<Rightarrow> string list \<Rightarrow> outcome) \<Rightarrow> world" where
  "leftover_host behaviour =
     \<lparr>files = [''/home/runner/work/_temp/container_run1'' \<mapsto> File ''abc123''],
      permitted = (\<lambda>p. True),
      process = behaviour,
      writesToStderr = (\<lambda>commandLine args. False),
      platform = ''linux'',
      trace = []\<rparr>"

definition unlaunchable_host :: world where
  "unlaunchable_host =
     \<lparr>files = [''/home/runner/work/_temp/container_run1'' \<mapsto> File '' abc123''],
      permitted = (\<lambda>p. True),
      process = (\<lambda>commandLine args. LaunchFailure),
      writesToStderr = (\<lambda>commandLine args. False),
      platform = ''linux'',
      trace = []\<rparr>"

definition stopped_container :: "string \<Rightarrow> string list \<Rightarrow> outcome" where
  "stopped_container commandLine args =
     (if args = [''exec'', ''abc123'', ''/bin/bash'', ''-c'', ''/cleanup.sh''] then Exited 1 else Exited 0)"

definition example_parameters :: docker_parameters where
  "example_parameters =
     \<lparr>runnerTemporaryPath = ''/home/runner/work/_temp'', githubAction = ''run1'',
      workspace = ''/home/runner/work/game'', actionFolder = ''/home/runner/action/dist'',
      runnerTempPath = ''/home/runner/work/_temp'',
      sshAgent = None, sshPublicKeysDirectoryPath = None, gitPrivateToken = None,
      dockerWorkspacePath = ''/github/workspace'', dockerCpuLimit = ''2'', dockerMemoryLimit = ''4g'',
      dockerIsolationMode = Some ''default''\<rparr>"

definition example_env :: env_var_string where
  "example_env parameters additionalVariables = ''--env UNITY_VERSION=2021.3.1f1''"

definition fresh_host :: "string \<Rightarrow> int \<Rightarrow> world" where
  "fresh_host os code =
     \<lparr>files = Map.empty, permitted = (\<lambda>p. True), process = (\<lambda>c a. Exited code),
      writesToStderr = (\<lambda>c a. False), platform = os,
      trace = []\<rparr>"

definition noisy_host :: world where
  "noisy_host =
     \<lparr>files = Map.empty, permitted = (\<lambda>p. True), process = (\<lambda>c a. Exited 0),
      writesToStderr = (\<lambda>c a. True), platform = ''linux'', trace = []\<rparr>"

text \<open>
  An environment collaborator that renders each additional variable as an \<^verbatim>\<open>--env\<close>
  argument.
\<close>

definition listed_variables :: env_var_string where
  \<open>listed_variables parameters additionalVariables =
     concat (map (\<lambda>(name, value). ''--env '' @ name @ ''="'' @ value @ ''" '')
               (case additionalVariables of None \<Rightarrow> [] | Some variables \<Rightarrow> variables))\<close>

definition prepared_host :: world where
  "prepared_host =
     \<lparr>files = [''/home/runner/work/_temp/_github_home'' \<mapsto> Dir,
               ''/home/runner/work/_temp/_github_workflow'' \<mapsto> Dir],
      permitted = (\<lambda>p. False), process = (\<lambda>c a. LaunchFailure),
      writesToStderr = (\<lambda>c a. True), platform = ''linux'',
      trace = [MkDir ''/home/runner/work/_temp/_github_home'']\<rparr>"

definition reaped_host :: world where
  "reaped_host =
     \<lparr>files = Map.empty, permitted = (\<lambda>p. True), process = (\<lambda>c a. Exited 0),
      writesToStderr = (\<lambda>c a. False), platform = ''linux'',
      trace = removal_events ''/home/runner/work/_temp/container_run1'' ''abc123''\<rparr>"

definition keys_only_parameters :: docker_parameters where
  "keys_only_parameters = example_parameters\<lparr>sshPublicKeysDirectoryPath := Some ''/home/runner/keys''\<rparr>"

definition agent_parameters :: docker_parameters where
  "agent_parameters = example_parameters\<lparr>sshAgent := Some ''/tmp/agent.sock''\<rparr>"

definition agent_keys_parameters :: docker_parameters where
  "agent_keys_parameters =
     example_parameters\<lparr>sshAgent := Some ''/tmp/agent.sock'',
                        sshPublicKeysDirectoryPath := Some ''/home/runner/keys''\<rparr>"

subsection \<open>Paths that path.join leaves as they are\<close>

definition proper_segment :: "string \<Rightarrow> bool" where
  "proper_segment s = (s \<noteq> [] \<and> CHR ''/'' \<notin> set s \<and> s \<noteq> ''.'' \<and> s \<noteq> ''..'')"

subsection \<open>Occurrences of a text in a command\<close>

text \<open>
  A text \<open>n\<close> occurs in a command when it is a contiguous sublist of it. The texts that a
  builder copies into its template come from the caller; whether \<open>n\<close> occurs in the command
  can be told from the template only as far as none of them contains \<open>n\<close> already.
\<close>

definition linux_texts ::
  "env_var_string \<Rightarrow> string \<Rightarrow> docker_parameters \<Rightarrow> string \<Rightarrow> (string \<times> string) list \<Rightarrow> string list" where
  "linux_texts getEnvVarString img parameters overrideCommands additionalVariables =
     [img, overrideCommands,
      getEnvVarString parameters (Some additionalVariables),
      workspace parameters, actionFolder parameters, dockerWorkspacePath parameters,
      dockerCpuLimit parameters, dockerMemoryLimit parameters,
      containerIdFilePath parameters,
      path_join (runnerTempPath parameters) ''_github_home'',
      path_join (runnerTempPath parameters) ''_github_workflow'']
     @ cond (gitPrivateToken parameters) (\<lambda>t. [t]) []
     @ cond (sshAgent parameters) (\<lambda>a. [a]) []
     @ cond (sshPublicKeysDirectoryPath parameters) (\<lambda>d. [d]) []"

definition windows_texts :: "env_var_string \<Rightarrow> string \<Rightarrow> docker_parameters \<Rightarrow> string list" where
  "windows_texts getEnvVarString img parameters =
     [img,
      getEnvVarString parameters None,
      workspace parameters, actionFolder parameters, dockerWorkspacePath parameters,
      dockerCpuLimit parameters, dockerMemoryLimit parameters,
      interpolate (dockerIsolationMode parameters)]
     @ cond (gitPrivateToken parameters) (\<lambda>t. [t]) []"

text \<open>
  The non-empty proper tails of \<open>n\<close>, and whether one of them starts \<open>b\<close>: whether an
  occurrence of \<open>n\<close> that begins before \<open>b\<close> can end in it.
\<close>

fun proper_tails :: "'a list \<Rightarrow> 'a list list" where
  "proper_tails [] = []"
| "proper_tails (x # xs) = (if xs = [] then [] else xs # proper_tails xs)"

definition continues :: "'a list \<Rightarrow> 'a list \<Rightarrow> bool" where
  "continues n b = list_ex (\<lambda>t. prefix t b) (proper_tails n)"

section \<open>Basic facts about the host operations\<close>

lemma log_fields [simp]:
  "files (log e w) = files w" "permitted (log e w) = permitted w"
  "process (log e w) = process w" "writesToStderr (log e w) = writesToStderr w"
  "platform (log e w) = platform w" "trace (log e w) = trace w @ [e]"
  by (simp_all add: log_def)

lemma missingDirectory_simps [simp]:
  "missingDirectory w None = None"
  "missingDirectory w (Some d) = (if d \<noteq> [] \<and> \<not> existsSync w d then Some d else None)"
  by (simp_all add: missingDirectory_def)

lemma exec_ignoring:
  "process w c a = Exited code \<Longrightarrow> ignoreReturnCode opts \<Longrightarrow>
   missingDirectory w (cwd opts) = None \<Longrightarrow>
   exec w c a opts =
     (if writesToStderr w c a \<and> failOnStdErr opts then Inl (ProcessStderr c) else Inr code,
      log (ExecCall c a opts) w)"
  by (simp add: exec_def Let_def)

lemma exec_zero:
  "process w c a = Exited 0 \<Longrightarrow> \<not> failOnStdErr opts \<Longrightarrow> cwd opts = None \<Longrightarrow>
   exec w c a opts = (Inr 0, log (ExecCall c a opts) w)"
  by (simp add: exec_def)

lemma exec_never_Error: "fst (exec w c a opts) \<noteq> Inl (Error msg)"
  by (simp add: exec_def Let_def split: outcome.split option.split)

lemma ensureDirectory_cases:
  "ensureDirectory w d = (r, w') \<Longrightarrow>
     (r = Inr () \<and> process w' = process w \<and> writesToStderr w' = writesToStderr w
        \<and> permitted w' = permitted w \<and> platform w' = platform w
        \<and> (\<forall>q. existsSync w q \<longrightarrow> existsSync w' q))
   \<or> (r = Inl (SystemError ''mkdir'' d) \<and> w' = w)"
  by (auto simp: ensureDirectory_def mkdirSync_def existsSync_def split: if_splits)

lemma ensureDirectory_ok:
  "existsSync w d \<or> permitted w d \<Longrightarrow>
   \<exists>w'. ensureDirectory w d = (Inr (), w') \<and> process w' = process w
     \<and> writesToStderr w' = writesToStderr w
     \<and> permitted w' = permitted w \<and> (\<forall>q. existsSync w q \<longrightarrow> existsSync w' q)"
  by (auto simp: ensureDirectory_def mkdirSync_def existsSync_def)

lemma getLinuxCommand_text:
  "getLinuxCommand w env img p oc av eb = (Inr c, w') \<Longrightarrow>
   c = continued (linuxCommandLines env img p oc av eb) \<and> process w' = process w"
  unfolding getLinuxCommand_def
  by (auto split: prod.splits sum.splits dest!: ensureDirectory_cases)

lemma getLinuxCommand_never_Error:
  "fst (getLinuxCommand w env img p oc av eb) \<noteq> Inl (Error msg)"
  unfolding getLinuxCommand_def
  by (auto split: prod.splits sum.splits dest!: ensureDirectory_cases)

lemma getLinuxCommand_ok:
  assumes "existsSync w (path_join (runnerTempPath p) ''_github_home'')
             \<or> permitted w (path_join (runnerTempPath p) ''_github_home'')"
      and "existsSync w (path_join (runnerTempPath p) ''_github_workflow'')
             \<or> permitted w (path_join (runnerTempPath p) ''_github_workflow'')"
  shows "\<exists>w'. getLinuxCommand w env img p oc av eb
                = (Inr (continued (linuxCommandLines env img p oc av eb)), w')
            \<and> process w' = process w \<and> writesToStderr w' = writesToStderr w
            \<and> (\<forall>q. existsSync w q \<longrightarrow> existsSync w' q)"
proof -
  from ensureDirectory_ok[OF assms(1)] obtain w1 where
    1: "ensureDirectory w (path_join (runnerTempPath p) ''_github_home'') = (Inr (), w1)"
       "process w1 = process w" "writesToStderr w1 = writesToStderr w"
       "permitted w1 = permitted w" "\<forall>q. existsSync w q \<longrightarrow> existsSync w1 q"
    by blast
  from assms(2) 1 have "existsSync w1 (path_join (runnerTempPath p) ''_github_workflow'')
       \<or> permitted w1 (path_join (runnerTempPath p) ''_github_workflow'')" by auto
  from ensureDirectory_ok[OF this] obtain w2 where
    2: "ensureDirectory w1 (path_join (runnerTempPath p) ''_github_workflow'') = (Inr (), w2)"
       "process w2 = process w1" "writesToStderr w2 = writesToStderr w1"
       "\<forall>q. existsSync w1 q \<longrightarrow> existsSync w2 q" by blast
  show ?thesis using 1 2 by (simp add: getLinuxCommand_def)
qed

lemma example_cidfile:
  "containerIdFilePath example_context = ''/home/runner/work/_temp/container_run1''"
  by (simp add: containerIdFilePath_def example_context_def path_join_def normalize_def
        normalizeString_def)

lemma example_directories:
  "path_join (runnerTempPath example_parameters) ''_github_home''
     = ''/home/runner/work/_temp/_github_home''"
  "path_join (runnerTempPath example_parameters) ''_github_workflow''
     = ''/home/runner/work/_temp/_github_workflow''"
  by (simp_all add: example_parameters_def path_join_def normalize_def normalizeString_def)

lemma trim_abc123: "trim ''abc123'' = ''abc123''"
  by (simp add: trim_def trimStart_def trimEnd_def isWhiteSpace_def)

lemma trim_padded: "trim '' abc123'' = ''abc123''" "trimEnd '' abc123'' = '' abc123''"
  by (simp_all add: trim_def trimStart_def trimEnd_def isWhiteSpace_def)

section \<open>Removal of a leftover container\<close>

text \<open>
  Claim C1, as the code has it. When the identity file exists, both invocations of the
  container runtime end with exit code 0 and the operating system lets the file be
  unlinked, \<open>ensureContainerRemoval\<close> performs exactly this sequence and nothing else: it
  reads the file, decodes it as ASCII and trims whitespace at both ends to obtain the
  container id; executes \<^verbatim>\<open>/cleanup.sh\<close> in that container, not silent; force-removes
  that container with its volumes; unlinks the identity file. It returns without error.
\<close>

theorem ensureContainerRemoval_reaps_in_order:
  assumes "files w (containerIdFilePath ctx) = Some (File bytes)"
      and "container = trim (map ascii bytes)"
      and "process w ''docker'' [''exec'', container, ''/bin/bash'', ''-c'', ''/cleanup.sh''] = Exited 0"
      and "process w ''docker'' [''rm'', ''--force'', ''--volumes'', container] = Exited 0"
      and "permitted w (containerIdFilePath ctx)"
  shows "ensureContainerRemoval w ctx =
           (Inr (), w\<lparr>files := (files w)(containerIdFilePath ctx := None),
                      trace := trace w @ removal_events (containerIdFilePath ctx) container\<rparr>)"
  using assms
  by (simp add: ensureContainerRemoval_def existsSync_def readFileSync_def exec_zero rmSync_def
        removal_events_def log_def Let_def)

theorem ensureContainerRemoval_reaps_in_order_witness:
  "ensureContainerRemoval (leftover_host (\<lambda>c a. Exited 0)) example_context =
     (Inr (), \<lparr>files = Map.empty, permitted = (\<lambda>p. True), process = (\<lambda>c a. Exited 0),
        writesToStderr = (\<lambda>c a. False), platform = ''linux'',
        trace = removal_events ''/home/runner/work/_temp/container_run1'' ''abc123''\<rparr>)"
  using ensureContainerRemoval_reaps_in_order
          [of "leftover_host (\<lambda>c a. Exited 0)" example_context "''abc123''" "''abc123''"]
  by (simp add: example_cidfile trim_abc123 leftover_host_def)

text \<open>
  The sequence is not performed for every host whose identity file exists. Here the file
  holds \<^verbatim>\<open>abc123\<close> after a space and the container runtime cannot be started: the id
  handed to the runtime is \<^verbatim>\<open>abc123\<close>, trimmed at the front as well, the first
  invocation raises, nothing is removed and the identity file stays.
\<close>

theorem ensureContainerRemoval_launch_failure_stops_sequence:
  "files unlaunchable_host (containerIdFilePath example_context) = Some (File '' abc123'')
   \<and> snd (ensureContainerRemoval unlaunchable_host example_context)
       \<noteq> described_removal unlaunchable_host (containerIdFilePath example_context)
            (map ascii '' abc123'')
   \<and> ensureContainerRemoval unlaunchable_host example_context
       = (Inl (ProcessLaunchError ''docker''),
          unlaunchable_host
            \<lparr>trace := [ReadFile ''/home/runner/work/_temp/container_run1'',
                        ExecCall ''docker'' [''exec'', ''abc123'', ''/bin/bash'', ''-c'', ''/cleanup.sh'']
                          \<lparr>silent = False, ignoreReturnCode = False, failOnStdErr = False, cwd = None\<rparr>]\<rparr>)
   \<and> trimEnd (map ascii '' abc123'') = '' abc123''"
  by (simp add: example_cidfile trim_padded unlaunchable_host_def ensureContainerRemoval_def
        existsSync_def readFileSync_def exec_def described_removal_def removal_events_def
        log_def Let_def)

text \<open>
  Claim C2, evaluated where the code departs from it. The identity file names the container
  \<^verbatim>\<open>abc123\<close> and the cleanup script ends with exit code 1: \<open>ensureContainerRemoval\<close>
  raises after the first invocation, never invokes the force-remove, and leaves the identity
  file in place.
\<close>

theorem ensureContainerRemoval_cleanup_exit_code_skips_removal:
  "ensureContainerRemoval (leftover_host stopped_container) example_context
     = (Inl (ProcessFailed ''docker'' 1),
        (leftover_host stopped_container)
          \<lparr>trace := [ReadFile ''/home/runner/work/_temp/container_run1'',
                      ExecCall ''docker'' [''exec'', ''abc123'', ''/bin/bash'', ''-c'', ''/cleanup.sh'']
                        \<lparr>silent = False, ignoreReturnCode = False, failOnStdErr = False, cwd = None\<rparr>]\<rparr>)
   \<and> files (snd (ensureContainerRemoval (leftover_host stopped_container) example_context))
        ''/home/runner/work/_temp/container_run1'' = Some (File ''abc123'')"
  by (simp add: example_cidfile trim_abc123 leftover_host_def ensureContainerRemoval_def
        existsSync_def readFileSync_def exec_def log_def stopped_container_def Let_def)

text \<open>
  Claim C3. Where the identity file does not exist, \<open>ensureContainerRemoval\<close> returns
  without error and leaves the host as it was: no call of the container runtime, no effect
  at all. After a call that returned without error the identity file does not exist, so a
  second call in succession is such a no-op.
\<close>

theorem ensureContainerRemoval_absent_is_noop:
  "(\<not> existsSync w (containerIdFilePath ctx) \<longrightarrow> ensureContainerRemoval w ctx = (Inr (), w))
   \<and> (ensureContainerRemoval w ctx = (Inr (), w') \<longrightarrow>
        \<not> existsSync w' (containerIdFilePath ctx) \<and> ensureContainerRemoval w' ctx = (Inr (), w'))"
proof -
  have absent: "ensureContainerRemoval v ctx = (Inr (), v)"
    if "\<not> existsSync v (containerIdFilePath ctx)" for v
    using that by (simp add: ensureContainerRemoval_def)
  have gone: "\<not> existsSync w' (containerIdFilePath ctx)"
    if "ensureContainerRemoval w ctx = (Inr (), w')"
    using that unfolding ensureContainerRemoval_def Let_def
    by (auto simp: rmSync_def existsSync_def
          split: if_splits prod.splits sum.splits option.splits node.splits)
  from absent gone show ?thesis by blast
qed

theorem ensureContainerRemoval_absent_is_noop_witness:
  "\<not> existsSync (fresh_host ''linux'' 0) (containerIdFilePath example_context)
   \<and> ensureContainerRemoval (fresh_host ''linux'' 0) example_context = (Inr (), fresh_host ''linux'' 0)
   \<and> existsSync (leftover_host (\<lambda>c a. Exited 0)) (containerIdFilePath example_context)
   \<and> ensureContainerRemoval (leftover_host (\<lambda>c a. Exited 0)) example_context = (Inr (), reaped_host)
   \<and> \<not> existsSync reaped_host (containerIdFilePath example_context)
   \<and> ensureContainerRemoval reaped_host example_context = (Inr (), reaped_host)"
proof -
  have a: "\<not> existsSync (fresh_host ''linux'' 0) (containerIdFilePath example_context)"
    by (simp add: existsSync_def fresh_host_def)
  have b: "existsSync (leftover_host (\<lambda>c a. Exited 0)) (containerIdFilePath example_context)"
    by (simp add: existsSync_def leftover_host_def example_cidfile)
  have c: "ensureContainerRemoval (leftover_host (\<lambda>c a. Exited 0)) example_context = (Inr (), reaped_host)"
    by (simp add: example_cidfile trim_abc123 leftover_host_def ensureContainerRemoval_def reaped_host_def
        existsSync_def readFileSync_def exec_def rmSync_def removal_events_def log_def Let_def)
  from a ensureContainerRemoval_absent_is_noop[of "fresh_host ''linux'' 0" example_context "fresh_host ''linux'' 0"]
  have d: "ensureContainerRemoval (fresh_host ''linux'' 0) example_context = (Inr (), fresh_host ''linux'' 0)"
    by blast
  from c ensureContainerRemoval_absent_is_noop[of "leftover_host (\<lambda>c a. Exited 0)" example_context reaped_host]
  have e: "\<not> existsSync reaped_host (containerIdFilePath example_context)
   \<and> ensureContainerRemoval reaped_host example_context = (Inr (), reaped_host)"
    by blast
  from a b c d e show ?thesis by blast
qed

section \<open>Running the container\<close>

text \<open>
  Claim C4, as the code has it. On each platform for which \<open>run\<close> builds a command
  (\<^verbatim>\<open>linux\<close> and \<^verbatim>\<open>win32\<close>), where the child process is started (on Linux the two
  auxiliary directories exist or can be created; the working directory of the caller's
  options, if any, exists), and for every exit code of the child process, zero or not:
  \<open>run\<close> hands the command to the exec primitive with the caller's options,
  \<^verbatim>\<open>silent\<close> set to the caller's flag and \<^verbatim>\<open>ignoreReturnCode\<close> set, and returns the exit
  code unchanged, without raising, unless the caller's options set \<^verbatim>\<open>failOnStdErr\<close> and
  the child has written to its standard error stream; then it raises, whatever the exit code.
\<close>

theorem run_returns_exit_code:
  assumes "platform w = ''linux'' \<or> platform w = ''win32''"
      and "platform w = ''linux'' \<longrightarrow>
             (\<forall>d \<in> {path_join (runnerTempPath p) ''_github_home'',
                      path_join (runnerTempPath p) ''_github_workflow''}.
                existsSync w d \<or> permitted w d)"
      and "\<forall>d. cwd opts = Some d \<and> d \<noteq> [] \<longrightarrow> existsSync w d"
      and "command = (if platform w = ''linux'' then continued (linuxCommandLines env img p oc av eb)
                      else getWindowsCommand env img p)"
      and "process w command [] = Exited code"
  shows "\<exists>w1. runCommand w env img p oc av eb = (Inr command, w1)
           \<and> run w env img p s oc av opts eb
               = (if writesToStderr w command [] \<and> failOnStdErr opts
                  then Inl (ProcessStderr command) else Inr code,
                  log (ExecCall command [] (opts\<lparr>silent := s, ignoreReturnCode := True\<rparr>)) w1)"
proof (cases "platform w = ''linux''")
  case True
  with assms(2) getLinuxCommand_ok[of w p env img oc av eb] obtain w1 where
    1: "getLinuxCommand w env img p oc av eb
          = (Inr (continued (linuxCommandLines env img p oc av eb)), w1)"
       "process w1 = process w" "writesToStderr w1 = writesToStderr w"
       "\<forall>q. existsSync w q \<longrightarrow> existsSync w1 q" by auto
  from assms(3) 1(4) have "missingDirectory w1 (cwd opts) = None"
    by (cases "cwd opts") auto
  with True assms(4,5) 1 show ?thesis
    by (simp add: run_def runCommand_def exec_ignoring)
next
  case False
  from assms(3) have "missingDirectory w (cwd opts) = None"
    by (cases "cwd opts") auto
  with False assms show ?thesis
    by (simp add: run_def runCommand_def exec_ignoring)
qed

theorem run_returns_exit_code_witness:
  "fst (run (fresh_host ''linux'' 137) example_env ''unityci/editor'' example_parameters True [] []
          \<lparr>silent = False, ignoreReturnCode = False, failOnStdErr = True, cwd = Some []\<rparr> False)
     = Inr 137
   \<and> fst (run (fresh_host ''win32'' 1) example_env ''unityci/editor'' example_parameters False [] []
          \<lparr>silent = True, ignoreReturnCode = False, failOnStdErr = False, cwd = None\<rparr> False) = Inr 1
   \<and> last (trace (snd (run (fresh_host ''win32'' 1) example_env ''unityci/editor'' example_parameters
          False [] [] \<lparr>silent = True, ignoreReturnCode = False, failOnStdErr = False, cwd = None\<rparr> False)))
       = ExecCall (getWindowsCommand example_env ''unityci/editor'' example_parameters) []
           \<lparr>silent = False, ignoreReturnCode = True, failOnStdErr = False, cwd = None\<rparr>
   \<and> fst (run noisy_host example_env ''unityci/editor'' example_parameters False [] []
          \<lparr>silent = False, ignoreReturnCode = False, failOnStdErr = False, cwd = None\<rparr> False) = Inr 0"
  using run_returns_exit_code
          [of "fresh_host ''linux'' 137" example_parameters
              "\<lparr>silent = False, ignoreReturnCode = False, failOnStdErr = True, cwd = Some []\<rparr>"
              "continued (linuxCommandLines example_env ''unityci/editor'' example_parameters [] [] False)"
              example_env "''unityci/editor''" "[]" "[]" False 137 True]
        run_returns_exit_code
          [of "fresh_host ''win32'' 1" example_parameters
              "\<lparr>silent = True, ignoreReturnCode = False, failOnStdErr = False, cwd = None\<rparr>"
              "getWindowsCommand example_env ''unityci/editor'' example_parameters"
              example_env "''unityci/editor''" "[]" "[]" False 1 False]
        run_returns_exit_code
          [of noisy_host example_parameters
              "\<lparr>silent = False, ignoreReturnCode = False, failOnStdErr = False, cwd = None\<rparr>"
              "continued (linuxCommandLines example_env ''unityci/editor'' example_parameters [] [] False)"
              example_env "''unityci/editor''" "[]" "[]" False 0 False]
  by (auto simp: fresh_host_def noisy_host_def)

text \<open>
  \<open>run\<close> does not return every exit code: the caller's options reach the exec primitive
  with \<^verbatim>\<open>failOnStdErr\<close> as the caller set it. Here the child writes to its standard error
  stream and ends with exit code 0, and \<open>run\<close> raises.
\<close>

theorem run_raises_on_stderr_when_asked:
  "platform noisy_host = ''linux''
   \<and> process noisy_host
        (continued (linuxCommandLines example_env ''unityci/editor'' example_parameters [] [] False)) []
       = Exited 0
   \<and> fst (run noisy_host example_env ''unityci/editor'' example_parameters False [] []
            \<lparr>silent = False, ignoreReturnCode = False, failOnStdErr = True, cwd = None\<rparr> False)
       = Inl (ProcessStderr
               (continued (linuxCommandLines example_env ''unityci/editor'' example_parameters [] [] False)))
   \<and> fst (run noisy_host example_env ''unityci/editor'' example_parameters False [] []
            \<lparr>silent = False, ignoreReturnCode = False, failOnStdErr = True, cwd = None\<rparr> False)
       \<noteq> Inr 0"
proof -
  obtain w1 where
    1: "getLinuxCommand noisy_host example_env ''unityci/editor'' example_parameters [] [] False
          = (Inr (continued (linuxCommandLines example_env ''unityci/editor'' example_parameters
                     [] [] False)), w1)"
       "process w1 = process noisy_host" "writesToStderr w1 = writesToStderr noisy_host"
    using getLinuxCommand_ok[of noisy_host example_parameters example_env "''unityci/editor''" "[]" "[]" False]
    by (auto simp: noisy_host_def)
  then show ?thesis
    by (simp add: run_def runCommand_def exec_def noisy_host_def Let_def)
qed

text \<open>
  Claim C8. For a fixed platform, the command text that \<open>run\<close> builds is the same on
  every host: two invocations with the same image reference, parameters, override command,
  additional variables and entrypoint flag (and the same environment-variable collaborator)
  that build a command build the same text, whatever the files, the trace and the processes
  of the two hosts.
\<close>

theorem runCommand_deterministic:
  assumes "platform w1 = platform w2"
      and "runCommand w1 env img p oc av eb = (Inr c1, w1')"
      and "runCommand w2 env img p oc av eb = (Inr c2, w2')"
  shows "c1 = c2"
  using assms by (auto simp: runCommand_def split: if_splits dest!: getLinuxCommand_text)

theorem runCommand_deterministic_witness:
  "\<exists>c w1' w2'.
     runCommand (fresh_host ''linux'' 0) example_env ''unityci/editor'' example_parameters [] [] False = (Inr c, w1')
   \<and> runCommand prepared_host example_env ''unityci/editor'' example_parameters [] [] False = (Inr c, w2')
   \<and> w1' \<noteq> w2'"
proof -
  obtain w1' where 1: "runCommand (fresh_host ''linux'' 0) example_env ''unityci/editor'' example_parameters [] [] False
      = (Inr (continued (linuxCommandLines example_env ''unityci/editor'' example_parameters [] [] False)), w1')"
     and p1: "process w1' = process (fresh_host ''linux'' 0)"
    using getLinuxCommand_ok[of "fresh_host ''linux'' 0" example_parameters example_env "''unityci/editor''" "[]" "[]" False]
    by (auto simp: runCommand_def fresh_host_def)
  obtain w2' where 2: "runCommand prepared_host example_env ''unityci/editor'' example_parameters [] [] False
      = (Inr (continued (linuxCommandLines example_env ''unityci/editor'' example_parameters [] [] False)), w2')"
     and p2: "process w2' = process prepared_host"
    using getLinuxCommand_ok[of prepared_host example_parameters example_env "''unityci/editor''" "[]" "[]" False]
    by (auto simp: runCommand_def prepared_host_def existsSync_def example_directories)
  have "process w1' ''docker'' [] \<noteq> process w2' ''docker'' []"
    by (simp add: p1 p2 fresh_host_def prepared_host_def)
  then have "w1' \<noteq> w2'" by auto
  moreover have "platform (fresh_host ''linux'' 0) = platform prepared_host"
    by (simp add: fresh_host_def prepared_host_def)
  from runCommand_deterministic[OF this 1 2] have True by simp
  ultimately show ?thesis using 1 2 by blast
qed

text \<open>
  Claim C10. The platform \<^verbatim>\<open>darwin\<close> passes \<open>checkCompatibility\<close>, yet \<open>run\<close> raises
  its unsupported-platform error there and leaves the host untouched: no directory is
  created, no command is built or executed. The same holds on every platform other than
  \<^verbatim>\<open>linux\<close> and \<^verbatim>\<open>win32\<close>, and on those two \<open>run\<close> never raises that error.
\<close>

theorem darwin_compatible_but_run_unsupported:
  "checkCompatibility (w\<lparr>platform := ''darwin''\<rparr>) = Inr ()
   \<and> run (w\<lparr>platform := ''darwin''\<rparr>) env img p s oc av opts eb
       = (Inl (Error ''Operation system, darwin, is not supported yet.''), w\<lparr>platform := ''darwin''\<rparr>)
   \<and> (platform w \<noteq> ''linux'' \<and> platform w \<noteq> ''win32'' \<longrightarrow>
        run w env img p s oc av opts eb
          = (Inl (Error (''Operation system, '' @ platform w @ '', is not supported yet.'')), w))
   \<and> (platform w = ''linux'' \<or> platform w = ''win32'' \<longrightarrow>
        (\<forall>msg. fst (run w env img p s oc av opts eb) \<noteq> Inl (Error msg)))"
proof -
  have a: "checkCompatibility (w\<lparr>platform := ''darwin''\<rparr>) = Inr ()"
    by (simp add: checkCompatibility_def supportedPlatforms_def)
  have b: "run (w\<lparr>platform := ''darwin''\<rparr>) env img p s oc av opts eb
       = (Inl (Error ''Operation system, darwin, is not supported yet.''), w\<lparr>platform := ''darwin''\<rparr>)"
    by (simp add: run_def runCommand_def)
  have c: "platform w \<noteq> ''linux'' \<and> platform w \<noteq> ''win32'' \<longrightarrow>
        run w env img p s oc av opts eb
          = (Inl (Error (''Operation system, '' @ platform w @ '', is not supported yet.'')), w)"
    by (simp add: run_def runCommand_def)
  have d: "fst (run w env img p s oc av opts eb) \<noteq> Inl (Error msg)"
    if "platform w = ''linux'' \<or> platform w = ''win32''" for msg
  proof (cases "runCommand w env img p oc av eb")
    case (Pair r w1)
    show ?thesis
    proof (cases r)
      case (Inl e)
      with Pair that getLinuxCommand_never_Error[of w env img p oc av eb msg] show ?thesis
        by (auto simp: run_def runCommand_def split: if_splits)
    next
      case (Inr command)
      with Pair show ?thesis by (simp add: run_def exec_never_Error)
    qed
  qed
  from a b c d show ?thesis by blast
qed

theorem darwin_compatible_but_run_unsupported_witness:
  "platform (fresh_host ''darwin'' 0) \<noteq> ''linux'' \<and> platform (fresh_host ''darwin'' 0) \<noteq> ''win32''
   \<and> checkCompatibility (fresh_host ''darwin'' 0) = Inr ()
   \<and> run (fresh_host ''darwin'' 0) example_env ''unityci/editor'' example_parameters False [] []
        \<lparr>silent = False, ignoreReturnCode = False, failOnStdErr = False, cwd = None\<rparr> False
      = (Inl (Error ''Operation system, darwin, is not supported yet.''), fresh_host ''darwin'' 0)
   \<and> platform (fresh_host ''linux'' 0) = ''linux''
   \<and> (\<forall>msg. fst (run (fresh_host ''linux'' 0) example_env ''unityci/editor'' example_parameters False [] []
        \<lparr>silent = False, ignoreReturnCode = False, failOnStdErr = False, cwd = None\<rparr> False) \<noteq> Inl (Error msg))"
  using darwin_compatible_but_run_unsupported[of "fresh_host ''darwin'' 0" example_env "''unityci/editor''" example_parameters False "[]" "[]"
              "\<lparr>silent = False, ignoreReturnCode = False, failOnStdErr = False, cwd = None\<rparr>" False]
        darwin_compatible_but_run_unsupported[of "fresh_host ''linux'' 0" example_env "''unityci/editor''" example_parameters False "[]" "[]"
              "\<lparr>silent = False, ignoreReturnCode = False, failOnStdErr = False, cwd = None\<rparr>" False]
  by (simp add: fresh_host_def)

section \<open>The identity-file path\<close>

lemma splitSlash_nonempty [simp]: "splitSlash s \<noteq> []"
  by (induction s) (auto split: list.splits)

lemma splitSlash_no_slash: "CHR ''/'' \<notin> set s \<Longrightarrow> splitSlash s = [s]"
  by (induction s) auto

lemma splitSlash_append_slash:
  "CHR ''/'' \<notin> set s \<Longrightarrow> splitSlash (s @ CHR ''/'' # rest) = s # splitSlash rest"
  by (induction s) auto

lemma splitSlash_joinSlash:
  "segs \<noteq> [] \<Longrightarrow> \<forall>s \<in> set segs. CHR ''/'' \<notin> set s \<Longrightarrow> splitSlash (joinSlash segs) = segs"
proof (induction segs rule: joinSlash.induct)
  case 1
  then show ?case by simp
next
  case (2 s)
  then show ?case by (simp add: splitSlash_no_slash)
next
  case (3 s t ss)
  then show ?case by (simp add: splitSlash_append_slash)
qed

lemma normalizeSegments_proper:
  "\<forall>s \<in> set segs. proper_segment s \<Longrightarrow> normalizeSegments ab res segs = res @ segs"
  by (induction segs arbitrary: res) (auto simp: proper_segment_def)

lemma joinSlash_snoc:
  "segs \<noteq> [] \<Longrightarrow> joinSlash (segs @ [t]) = joinSlash segs @ CHR ''/'' # t"
  by (induction segs rule: joinSlash.induct) auto

lemma joinSlash_eq_Nil: "joinSlash segs = [] \<Longrightarrow> segs = [] \<or> segs = [[]]"
  by (induction segs rule: joinSlash.induct) auto

lemma hd_joinSlash: "segs \<noteq> [] \<Longrightarrow> hd segs \<noteq> [] \<Longrightarrow> hd (joinSlash segs) = hd (hd segs)"
  by (induction segs rule: joinSlash.induct) auto

lemma last_joinSlash: "segs \<noteq> [] \<Longrightarrow> last segs \<noteq> [] \<Longrightarrow> last (joinSlash segs) = last (last segs)"
proof (induction segs rule: joinSlash.induct)
  case 1
  then show ?case by simp
next
  case (2 s)
  then show ?case by simp
next
  case (3 s t ss)
  then have "joinSlash (t # ss) \<noteq> []" by (auto dest!: joinSlash_eq_Nil)
  with 3 show ?case by simp
qed

lemma normalize_clean:
  assumes "segs \<noteq> []" and "\<forall>s \<in> set segs. proper_segment s" and "root = [] \<or> root = ''/''"
  shows "normalize (root @ joinSlash segs) = root @ joinSlash segs"
proof -
  let ?p = "root @ joinSlash segs"
  from assms have hdp: "hd segs \<noteq> []" "last segs \<noteq> []" "CHR ''/'' \<notin> set (hd segs)" "CHR ''/'' \<notin> set (last segs)"
    by (auto simp: proper_segment_def)
  from assms hdp have ne: "joinSlash segs \<noteq> []"
    by (auto dest!: joinSlash_eq_Nil)
  have noslash: "\<forall>s \<in> set segs. CHR ''/'' \<notin> set s" using assms by (auto simp: proper_segment_def)
  have abs: "(hd ?p = CHR ''/'') = (root = ''/'')"
  proof (cases "root = []")
    case True
    with assms hdp ne show ?thesis
      by (simp add: hd_joinSlash) (metis hd_in_set)
  next
    case False
    with assms show ?thesis by auto
  qed
  have trail: "last ?p \<noteq> CHR ''/''"
    using assms hdp ne by (simp add: last_joinSlash) (metis last_in_set)
  have split: "splitSlash ?p = (if root = ''/'' then [] # segs else segs)"
    using assms(1,3) noslash by (auto simp: splitSlash_joinSlash)
  have norm: "normalizeString ?p ab = joinSlash segs" for ab
    using assms(2) by (simp add: normalizeString_def split normalizeSegments_proper)
  show ?thesis
    using ne abs trail assms(3) by (auto simp: normalize_def norm Let_def)
qed

lemma path_join_clean:
  assumes "segs \<noteq> []" and "\<forall>s \<in> set segs. proper_segment s" and "root = [] \<or> root = ''/''"
      and "proper_segment b"
  shows "path_join (root @ joinSlash segs) b = root @ joinSlash segs @ ''/'' @ b"
proof -
  from assms(1,2) have "hd segs \<noteq> []" by (cases segs) (auto simp: proper_segment_def)
  with assms(1) have ne: "joinSlash segs \<noteq> []"
    by (cases segs) (auto dest!: joinSlash_eq_Nil)
  from assms(4) have b: "b \<noteq> []" by (simp add: proper_segment_def)
  have all: "\<forall>s \<in> set (segs @ [b]). proper_segment s" using assms(2,4) by simp
  have "normalize (root @ joinSlash (segs @ [b])) = root @ joinSlash (segs @ [b])"
    by (rule normalize_clean[OF _ all assms(3)]) simp
  then have "normalize (root @ joinSlash segs @ CHR ''/'' # b) = root @ joinSlash segs @ CHR ''/'' # b"
    by (simp only: joinSlash_snoc[OF assms(1)])
  with ne b show ?thesis
    by (simp add: path_join_def)
qed

lemma container_segment: "CHR ''/'' \<notin> set i \<Longrightarrow> proper_segment (''container_'' @ i)"
  by (simp add: proper_segment_def)

lemma cidfile_line:
  "''--cidfile='' @ containerIdFilePath p \<in> set (linuxCommandLines env img p oc av eb)"
  by (simp add: linuxCommandLines_def Let_def)

text \<open>
  Claim C5, as the code has it. The identity-file path is
  \<^verbatim>\<open>path.join(temporaryDirectoryPath, 'container_' + runIdentifier)\<close>: it depends on the
  two fields only, so a \<^verbatim>\<open>RunnerContext\<close> and the parameters of a run that carry the same
  pair give the same path, which is the one in the \<^verbatim>\<open>--cidfile\<close> argument of the Linux
  command. It is the text \<^verbatim>\<open><temporaryDirectoryPath>/container_<runIdentifier>\<close> whenever
  the temporary directory path is normalised (segments separated by single slashes, an
  optional leading slash, no segment empty, \<^verbatim>\<open>.\<close> or \<^verbatim>\<open>..\<close>, no trailing slash) and
  the run identifier has no slash.
\<close>

theorem containerIdFilePath_is_path_join:
  "containerIdFilePath ctx = path_join (runnerTemporaryPath ctx) (''container_'' @ githubAction ctx)
   \<and> (runnerTemporaryPath ctx = runnerTemporaryPath parameters
        \<and> githubAction ctx = githubAction parameters
        \<longrightarrow> containerIdFilePath ctx = containerIdFilePath parameters
            \<and> ''--cidfile='' @ containerIdFilePath ctx
                 \<in> set (linuxCommandLines env img parameters oc av eb))
   \<and> ((root = [] \<or> root = ''/'') \<and> segs \<noteq> [] \<and> (\<forall>s \<in> set segs. proper_segment s)
        \<and> runnerTemporaryPath ctx = root @ joinSlash segs \<and> CHR ''/'' \<notin> set (githubAction ctx)
        \<longrightarrow> containerIdFilePath ctx
              = runnerTemporaryPath ctx @ ''/'' @ ''container_'' @ githubAction ctx)"
proof -
  have same: "containerIdFilePath ctx = containerIdFilePath parameters"
    if "runnerTemporaryPath ctx = runnerTemporaryPath parameters"
       "githubAction ctx = githubAction parameters"
    using that by (simp add: containerIdFilePath_def)
  have clean: "containerIdFilePath ctx
                 = runnerTemporaryPath ctx @ ''/'' @ ''container_'' @ githubAction ctx"
    if "root = [] \<or> root = ''/''" "segs \<noteq> []" "\<forall>s \<in> set segs. proper_segment s"
       "runnerTemporaryPath ctx = root @ joinSlash segs" "CHR ''/'' \<notin> set (githubAction ctx)"
    using path_join_clean[OF that(2,3,1) container_segment[OF that(5)]] that(4)
    by (simp add: containerIdFilePath_def)
  have def: "containerIdFilePath ctx
               = path_join (runnerTemporaryPath ctx) (''container_'' @ githubAction ctx)"
    by (simp add: containerIdFilePath_def)
  from same clean def cidfile_line[of parameters env img oc av eb] show ?thesis
    by metis
qed

theorem containerIdFilePath_is_path_join_witness:
  "containerIdFilePath example_context = ''/home/runner/work/_temp/container_run1''
   \<and> containerIdFilePath example_parameters = containerIdFilePath example_context
   \<and> ''--cidfile='' @ ''/home/runner/work/_temp/container_run1''
        \<in> set (linuxCommandLines example_env ''unityci/editor'' example_parameters [] [] False)"
proof -
  note t = containerIdFilePath_is_path_join
          [of example_context example_parameters example_env "''unityci/editor''" "[]" "[]" False
              "''/''" "[''home'', ''runner'', ''work'', ''_temp'']"]
  have same: "runnerTemporaryPath example_context = runnerTemporaryPath example_parameters
        \<and> githubAction example_context = githubAction example_parameters"
    by (simp add: example_context_def example_parameters_def)
  have clean: "(''/'' = [] \<or> ''/'' = ''/'') \<and> [''home'', ''runner'', ''work'', ''_temp''] \<noteq> []
        \<and> (\<forall>s \<in> set [''home'', ''runner'', ''work'', ''_temp'']. proper_segment s)
        \<and> runnerTemporaryPath example_context = ''/'' @ joinSlash [''home'', ''runner'', ''work'', ''_temp'']
        \<and> CHR ''/'' \<notin> set (githubAction example_context)"
    by (simp add: example_context_def proper_segment_def)
  from t same clean have
    a: "containerIdFilePath example_context = containerIdFilePath example_parameters" and
    b: "''--cidfile='' @ containerIdFilePath example_context
          \<in> set (linuxCommandLines example_env ''unityci/editor'' example_parameters [] [] False)" and
    c: "containerIdFilePath example_context
          = runnerTemporaryPath example_context @ ''/'' @ ''container_'' @ githubAction example_context"
    by blast+
  have d: "runnerTemporaryPath example_context @ ''/'' @ ''container_'' @ githubAction example_context
             = ''/home/runner/work/_temp/container_run1''"
    by (simp add: example_context_def)
  from c d have e: "containerIdFilePath example_context = ''/home/runner/work/_temp/container_run1''"
    by (rule trans)
  from b have g: "''--cidfile='' @ ''/home/runner/work/_temp/container_run1''
          \<in> set (linuxCommandLines example_env ''unityci/editor'' example_parameters [] [] False)"
    by (simp only: e)
  from a e g show ?thesis by simp
qed

text \<open>
  The path is not that text for every pair: a run whose temporary directory is the root
  directory has the identity file \<^verbatim>\<open>/container_run1\<close>, not \<^verbatim>\<open>//container_run1\<close>.
\<close>

theorem containerIdFilePath_root_directory:
  "containerIdFilePath \<lparr>runnerTemporaryPath = ''/'', githubAction = ''run1''\<rparr> = ''/container_run1''
   \<and> containerIdFilePath \<lparr>runnerTemporaryPath = ''/'', githubAction = ''run1''\<rparr>
       \<noteq> ''/'' @ ''/'' @ ''container_'' @ ''run1''"
  by (simp add: containerIdFilePath_def path_join_def normalize_def normalizeString_def)

section \<open>The Linux command\<close>



lemma fresh_host_builds:
  "permitted w = (\<lambda>p. True) \<Longrightarrow>
   \<exists>w'. getLinuxCommand w env img p oc av eb
          = (Inr (continued (linuxCommandLines env img p oc av eb)), w')"
  using getLinuxCommand_ok[of w p env img oc av eb] by auto



section \<open>Texts that occur in a command\<close>

lemma proper_tails_split:
  "n = xs1 @ xs2 \<Longrightarrow> xs1 \<noteq> [] \<Longrightarrow> xs2 \<noteq> [] \<Longrightarrow> xs2 \<in> set (proper_tails n)"
proof (induction xs1 arbitrary: n)
  case Nil
  then show ?case by simp
next
  case (Cons x xs1)
  then show ?case by (cases xs1) auto
qed

lemma sublist_hole:
  assumes "\<not> sublist n a" and "\<not> continues n b"
  shows "sublist n (a @ b) = sublist n b"
proof
  assume "sublist n (a @ b)"
  then consider "sublist n a" | "sublist n b"
    | xs1 xs2 where "n = xs1 @ xs2" "suffix xs1 a" "prefix xs2 b"
    by (auto simp: sublist_append)
  then show "sublist n b"
  proof cases
    case 1
    with assms show ?thesis by simp
  next
    case 2
    then show ?thesis .
  next
    case 3
    show ?thesis
    proof (cases "xs1 = []")
      case True
      with 3 show ?thesis by simp
    next
      case False
      show ?thesis
      proof (cases "xs2 = []")
        case True
        with 3 assms(1) show ?thesis by simp
      next
        case xs2: False
        from proper_tails_split[OF 3(1) False xs2] 3(3) assms(2) show ?thesis
          by (auto simp: continues_def list_ex_iff)
      qed
    qed
  qed
next
  assume "sublist n b"
  then show "sublist n (a @ b)" by (auto simp: sublist_append)
qed

lemma sublist_Cons_both:
  "sublist (x # xs) (c # b) = ((x = c \<and> prefix xs b) \<or> sublist (x # xs) b)"
  by (simp add: sublist_Cons_right)

lemma sublist_barrier:
  assumes "c \<notin> set n"
  shows "sublist n (a @ c # b) = (sublist n a \<or> sublist n b)"
proof (cases "n = []")
  case True
  then show ?thesis by simp
next
  case False
  have 1: "sublist n (c # b) = sublist n b"
    using assms False by (cases n) (auto simp: sublist_Cons_right)
  have 2: "\<not> (suffix xs1 a \<and> prefix xs2 (c # b) \<and> xs2 \<noteq> [])" if "n = xs1 @ xs2" for xs1 xs2
    using that assms by (cases xs2) auto
  show ?thesis
  proof
    assume "sublist n (a @ c # b)"
    then consider "sublist n a" | "sublist n (c # b)"
      | xs1 xs2 where "n = xs1 @ xs2" "suffix xs1 a" "prefix xs2 (c # b)"
      by (auto simp: sublist_append)
    then show "sublist n a \<or> sublist n b"
    proof cases
      case 3
      with 2[OF 3(1)] have "xs2 = []" by auto
      with 3 show ?thesis by simp
    qed (auto simp: 1)
  next
    assume "sublist n a \<or> sublist n b"
    then show "sublist n (a @ c # b)" by (auto simp: sublist_append 1)
  qed
qed

lemma sublist_spaces:
  "CHR '' '' \<notin> set n \<Longrightarrow> n \<noteq> [] \<Longrightarrow> sublist n (a @ continuation @ b) = (sublist n a \<or> sublist n b)"
  by (simp add: continuation_def sublist_barrier sublist_Cons_right prefix_Cons) (cases n, auto simp: sublist_Cons_right)

lemma sublist_continued:
  "CHR '' '' \<notin> set n \<Longrightarrow> n \<noteq> [] \<Longrightarrow> sublist n (continued ls) = (\<exists>l \<in> set ls. sublist n l)"
  by (induction ls rule: continued.induct) (simp_all add: sublist_spaces)

lemma line_sublist_continued: "l \<in> set ls \<Longrightarrow> sublist l (continued ls)"
proof (induction ls rule: continued.induct)
  case 1
  then show ?case by simp
next
  case (2 l')
  then show ?case by simp
next
  case (3 l' m ls)
  then show ?case
    by (auto simp: sublist_append)
qed

lemma truthy_simps: "truthy None = False" "truthy (Some s) = (s \<noteq> [])"
  by (simp_all add: truthy_def)

subsection \<open>Lines of the commands in which a text does not occur\<close>

lemma linux_lines_free_token:
  assumes "\<not> truthy (gitPrivateToken p)"
      and "\<forall>t \<in> set (linux_texts env img p oc av). \<not> sublist ''GIT_PRIVATE_TOKEN'' t"
  shows "\<forall>l \<in> set (linuxCommandLines env img p oc av eb). \<not> sublist ''GIT_PRIVATE_TOKEN'' l"
  using assms
  apply (cases "sshAgent p"; cases "sshPublicKeysDirectoryPath p"; cases "gitPrivateToken p")
  by (simp_all add: linuxCommandLines_def linux_texts_def Let_def truthy_simps commandPrefix_def
        sublist_Cons_both sublist_hole continues_def)

lemma windows_lines_free_token:
  assumes "\<not> truthy (gitPrivateToken p)"
      and "\<forall>t \<in> set (windows_texts env img p). \<not> sublist ''GIT_PRIVATE_TOKEN'' t"
  shows "\<forall>l \<in> set (windowsCommandLines env img p). \<not> sublist ''GIT_PRIVATE_TOKEN'' l"
  using assms
  apply (cases "gitPrivateToken p")
  by (simp_all add: windowsCommandLines_def windows_texts_def Let_def truthy_simps
        sublist_Cons_both sublist_hole continues_def)

lemma linux_lines_free_auth_sock:
  assumes "\<not> truthy (sshAgent p)"
      and "\<forall>t \<in> set (linux_texts env img p oc av). \<not> sublist ''SSH_AUTH_SOCK'' t"
  shows "\<forall>l \<in> set (linuxCommandLines env img p oc av eb). \<not> sublist ''SSH_AUTH_SOCK'' l"
  using assms
  apply (cases "sshAgent p"; cases "sshPublicKeysDirectoryPath p"; cases "gitPrivateToken p")
  by (simp_all add: linuxCommandLines_def linux_texts_def Let_def truthy_simps commandPrefix_def
        sublist_Cons_both sublist_hole continues_def)

lemma linux_lines_free_agent_mount:
  assumes "\<not> truthy (sshAgent p)"
      and "\<forall>t \<in> set (linux_texts env img p oc av). \<not> sublist ''/ssh-agent'' t"
  shows "\<forall>l \<in> set (linuxCommandLines env img p oc av eb). \<not> sublist ''/ssh-agent'' l"
  using assms
  apply (cases "sshAgent p"; cases "sshPublicKeysDirectoryPath p"; cases "gitPrivateToken p")
  by (simp_all add: linuxCommandLines_def linux_texts_def Let_def truthy_simps commandPrefix_def
        sublist_Cons_both sublist_hole continues_def)

lemma linux_lines_free_known_hosts:
  assumes "\<not> truthy (sshAgent p) \<or> truthy (sshPublicKeysDirectoryPath p)"
      and "\<forall>t \<in> set (linux_texts env img p oc av). \<not> sublist ''known_hosts'' t"
  shows "\<forall>l \<in> set (linuxCommandLines env img p oc av eb). \<not> sublist ''known_hosts'' l"
  using assms
  apply (cases "sshAgent p"; cases "sshPublicKeysDirectoryPath p"; cases "gitPrivateToken p")
         apply (simp_all add: linuxCommandLines_def linux_texts_def Let_def truthy_simps
           commandPrefix_def sublist_Cons_both sublist_hole continues_def)
  by blast+

lemma linux_lines_free_keys_mount:
  assumes "\<not> truthy (sshPublicKeysDirectoryPath p)"
      and "\<forall>t \<in> set (linux_texts env img p oc av). \<not> sublist '':/root/.ssh:ro'' t"
  shows "\<forall>l \<in> set (linuxCommandLines env img p oc av eb). \<not> sublist '':/root/.ssh:ro'' l"
  using assms
  apply (cases "sshAgent p"; cases "sshPublicKeysDirectoryPath p"; cases "gitPrivateToken p")
  by (simp_all add: linuxCommandLines_def linux_texts_def Let_def truthy_simps commandPrefix_def
        sublist_Cons_both sublist_hole continues_def)

lemma linux_lines_free_dot_ssh:
  assumes "\<not> truthy (sshAgent p) \<and> \<not> truthy (sshPublicKeysDirectoryPath p)"
      and "\<forall>t \<in> set (linux_texts env img p oc av). \<not> sublist ''.ssh'' t"
  shows "\<forall>l \<in> set (linuxCommandLines env img p oc av eb). \<not> sublist ''.ssh'' l"
  using assms
  apply (cases "sshAgent p"; cases "sshPublicKeysDirectoryPath p"; cases "gitPrivateToken p")
  by (simp_all add: linuxCommandLines_def linux_texts_def Let_def truthy_simps commandPrefix_def
        sublist_Cons_both sublist_hole continues_def)

lemma keys_mount_line:
  "sshPublicKeysDirectoryPath p = Some d \<Longrightarrow> d \<noteq> [] \<Longrightarrow>
   ''--volume '' @ d @ '':/root/.ssh:ro'' \<in> set (linuxCommandLines env img p oc av eb)"
  by (simp add: linuxCommandLines_def Let_def)

lemma known_hosts_line:
  "truthy (sshAgent p) \<Longrightarrow> \<not> truthy (sshPublicKeysDirectoryPath p) \<Longrightarrow>
   ''--volume /home/runner/.ssh/known_hosts:/root/.ssh/known_hosts:ro''
     \<in> set (linuxCommandLines env img p oc av eb)"
  by (simp add: linuxCommandLines_def Let_def)

lemma example_parameters_cidfile:
  "containerIdFilePath example_parameters = ''/home/runner/work/_temp/container_run1''"
  by (simp add: containerIdFilePath_def example_parameters_def path_join_def normalize_def
        normalizeString_def)

lemma example_linux_texts:
  "linux_texts example_env ''unityci/editor'' example_parameters [] [] =
     [''unityci/editor'', [], ''--env UNITY_VERSION=2021.3.1f1'',
      ''/home/runner/work/game'', ''/home/runner/action/dist'', ''/github/workspace'', ''2'', ''4g'',
      ''/home/runner/work/_temp/container_run1'', ''/home/runner/work/_temp/_github_home'',
      ''/home/runner/work/_temp/_github_workflow'']"
  unfolding linux_texts_def example_parameters_cidfile example_directories
  by (simp add: example_parameters_def example_env_def)

lemma example_windows_texts:
  "windows_texts example_env ''unityci/editor'' example_parameters =
     [''unityci/editor'', ''--env UNITY_VERSION=2021.3.1f1'',
      ''/home/runner/work/game'', ''/home/runner/action/dist'', ''/github/workspace'', ''2'', ''4g'',
      ''default'']"
  by (simp add: windows_texts_def example_parameters_def example_env_def)

lemma example_variant_texts:
  "linux_texts example_env ''unityci/editor'' keys_only_parameters [] [] =
     linux_texts example_env ''unityci/editor'' example_parameters [] [] @ [''/home/runner/keys'']"
  "linux_texts example_env ''unityci/editor'' agent_parameters [] [] =
     linux_texts example_env ''unityci/editor'' example_parameters [] [] @ [''/tmp/agent.sock'']"
  "linux_texts example_env ''unityci/editor'' agent_keys_parameters [] [] =
     linux_texts example_env ''unityci/editor'' example_parameters [] []
       @ [''/tmp/agent.sock'', ''/home/runner/keys'']"
  by (simp_all add: linux_texts_def keys_only_parameters_def agent_parameters_def
        agent_keys_parameters_def example_parameters_def example_env_def containerIdFilePath_def)

text \<open>
  Claim C7, as the code has it. Where \<^verbatim>\<open>gitPrivateToken\<close> is unset (absent or empty),
  the builders add no \<^verbatim>\<open>GIT_PRIVATE_TOKEN\<close> environment variable of their own: in the
  command that \<open>run\<close> builds, on Linux and on Windows, the name occurs only if it occurs
  in one of the texts that the caller supplies and the builder copies into the command
  (the image, the paths, the limits, the override command, the environment string of the
  collaborator).
\<close>

theorem no_token_variable_when_unset:
  assumes "\<not> truthy (gitPrivateToken p)"
      and "\<forall>t \<in> set (if platform w = ''linux'' then linux_texts env img p oc av
                       else windows_texts env img p).
             \<not> sublist ''GIT_PRIVATE_TOKEN'' t"
      and "runCommand w env img p oc av eb = (Inr command, w')"
  shows "\<not> sublist ''GIT_PRIVATE_TOKEN'' command"
proof (cases "platform w = ''linux''")
  case True
  with assms(3) have "command = continued (linuxCommandLines env img p oc av eb)"
    by (auto simp: runCommand_def dest!: getLinuxCommand_text)
  moreover from True assms(2)
  have "\<forall>t \<in> set (linux_texts env img p oc av). \<not> sublist ''GIT_PRIVATE_TOKEN'' t" by simp
  from linux_lines_free_token[OF assms(1) this, of eb]
  have "\<forall>l \<in> set (linuxCommandLines env img p oc av eb). \<not> sublist ''GIT_PRIVATE_TOKEN'' l" .
  ultimately show ?thesis by (simp add: sublist_continued)
next
  case False
  with assms(3) have "command = continued (windowsCommandLines env img p)"
    by (auto simp: runCommand_def getWindowsCommand_def split: if_splits)
  moreover from False assms(2)
  have "\<forall>t \<in> set (windows_texts env img p). \<not> sublist ''GIT_PRIVATE_TOKEN'' t" by simp
  from windows_lines_free_token[OF assms(1) this]
  have "\<forall>l \<in> set (windowsCommandLines env img p). \<not> sublist ''GIT_PRIVATE_TOKEN'' l" .
  ultimately show ?thesis by (simp add: sublist_continued)
qed

theorem no_token_variable_when_unset_witness:
  "(\<exists>command w'. runCommand (fresh_host ''linux'' 0) example_env ''unityci/editor'' example_parameters [] []
                     False = (Inr command, w')
       \<and> \<not> sublist ''GIT_PRIVATE_TOKEN'' command)
   \<and> (\<exists>command w'. runCommand (fresh_host ''win32'' 0) example_env ''unityci/editor'' example_parameters [] []
                     False = (Inr command, w')
       \<and> \<not> sublist ''GIT_PRIVATE_TOKEN'' command)"
proof -
  have t: "\<not> truthy (gitPrivateToken example_parameters)"
    by (simp add: truthy_simps example_parameters_def)
  have f1: "\<forall>t \<in> set (if platform (fresh_host ''linux'' 0) = ''linux''
                        then linux_texts example_env ''unityci/editor'' example_parameters [] []
                        else windows_texts example_env ''unityci/editor'' example_parameters).
             \<not> sublist ''GIT_PRIVATE_TOKEN'' t"
    unfolding example_linux_texts example_windows_texts by (simp add: sublist_Cons_both fresh_host_def)
  have f2: "\<forall>t \<in> set (if platform (fresh_host ''win32'' 0) = ''linux''
                        then linux_texts example_env ''unityci/editor'' example_parameters [] []
                        else windows_texts example_env ''unityci/editor'' example_parameters).
             \<not> sublist ''GIT_PRIVATE_TOKEN'' t"
    unfolding example_linux_texts example_windows_texts by (simp add: sublist_Cons_both fresh_host_def)
  obtain c1 w1 where 1: "runCommand (fresh_host ''linux'' 0) example_env ''unityci/editor''
       example_parameters [] [] False = (Inr c1, w1)"
    using fresh_host_builds[of "fresh_host ''linux'' 0" example_env "''unityci/editor''"
            example_parameters "[]" "[]" False]
    by (auto simp: runCommand_def fresh_host_def)
  obtain c2 w2 where 2: "runCommand (fresh_host ''win32'' 0) example_env ''unityci/editor''
       example_parameters [] [] False = (Inr c2, w2)"
    by (simp add: runCommand_def fresh_host_def)
  from no_token_variable_when_unset[OF t f1 1] no_token_variable_when_unset[OF t f2 2] 1 2
  show ?thesis by blast
qed

text \<open>
  The builders copy the collaborator's environment string into the command as it is. With
  \<^verbatim>\<open>gitPrivateToken\<close> unset and the variable among the additional variables, the Linux
  command carries a \<^verbatim>\<open>GIT_PRIVATE_TOKEN\<close> environment variable.
\<close>

theorem token_variable_from_collaborator:
  \<open>\<not> truthy (gitPrivateToken example_parameters)
   \<and> fst (runCommand (fresh_host ''linux'' 0) listed_variables ''unityci/editor'' example_parameters []
            [(''GIT_PRIVATE_TOKEN'', ''s3cret'')] False)
       = Inr (continued (linuxCommandLines listed_variables ''unityci/editor'' example_parameters []
                [(''GIT_PRIVATE_TOKEN'', ''s3cret'')] False))
   \<and> sublist ''--env GIT_PRIVATE_TOKEN="s3cret"''
        (continued (linuxCommandLines listed_variables ''unityci/editor'' example_parameters []
           [(''GIT_PRIVATE_TOKEN'', ''s3cret'')] False))
   \<and> sublist ''GIT_PRIVATE_TOKEN''
        (continued (linuxCommandLines listed_variables ''unityci/editor'' example_parameters []
           [(''GIT_PRIVATE_TOKEN'', ''s3cret'')] False))\<close>
proof -
  let ?lines = "linuxCommandLines listed_variables ''unityci/editor'' example_parameters []
                  [(''GIT_PRIVATE_TOKEN'', ''s3cret'')] False"
  let ?line = "listed_variables example_parameters (Some [(''GIT_PRIVATE_TOKEN'', ''s3cret'')])"
  have perm: "permitted (fresh_host ''linux'' 0) = (\<lambda>p. True)" by (simp add: fresh_host_def)
  have a: "\<not> truthy (gitPrivateToken example_parameters)"
    by (simp add: truthy_simps example_parameters_def)
  have b: "fst (runCommand (fresh_host ''linux'' 0) listed_variables ''unityci/editor''
                  example_parameters [] [(''GIT_PRIVATE_TOKEN'', ''s3cret'')] False)
             = Inr (continued ?lines)"
    using fresh_host_builds[OF perm, of listed_variables "''unityci/editor''" example_parameters "[]"
            "[(''GIT_PRIVATE_TOKEN'', ''s3cret'')]" False]
    by (auto simp: runCommand_def fresh_host_def)
  have "?line \<in> set ?lines"
    by (simp add: linuxCommandLines_def Let_def)
  from line_sublist_continued[OF this] have l: "sublist ?line (continued ?lines)" .
  have "sublist (''--env GIT_PRIVATE_TOKEN='' @ [CHR 0x22] @ ''s3cret'' @ [CHR 0x22]) ?line"
    by (simp add: listed_variables_def sublist_Cons_both)
  from sublist_order.order.trans[OF this l]
  have c: "sublist (''--env GIT_PRIVATE_TOKEN='' @ [CHR 0x22] @ ''s3cret'' @ [CHR 0x22])
             (continued ?lines)" .
  have "sublist ''GIT_PRIVATE_TOKEN'' ?line"
    by (simp add: listed_variables_def sublist_Cons_both)
  from sublist_order.order.trans[OF this l]
  have d: "sublist ''GIT_PRIVATE_TOKEN'' (continued ?lines)" .
  from a b c d show ?thesis by simp
qed

text \<open>
  Claim C6, as the code has it. In the Linux command: where \<^verbatim>\<open>sshAgent\<close> is unset, the
  builder adds no \<^verbatim>\<open>SSH_AUTH_SOCK\<close> variable, no \<^verbatim>\<open>/ssh-agent\<close> mount and no
  \<^verbatim>\<open>known_hosts\<close> mount, and nothing that mentions \<^verbatim>\<open>.ssh\<close> if
  \<^verbatim>\<open>sshPublicKeysDirectoryPath\<close> is unset too; where \<^verbatim>\<open>sshAgent\<close> is set and
  \<^verbatim>\<open>sshPublicKeysDirectoryPath\<close> is unset, the known-hosts mount is there and the
  public-keys mount is not; where \<^verbatim>\<open>sshPublicKeysDirectoryPath\<close> is set, with or without
  \<^verbatim>\<open>sshAgent\<close>, the public-keys mount is there and the known-hosts mount is not. Each
  absence is that of a text none of the caller's texts contains.
\<close>

theorem linux_ssh_fragments:
  assumes "getLinuxCommand w env img p oc av eb = (Inr command, w')"
  shows "(\<not> truthy (sshAgent p) \<longrightarrow>
            (\<forall>n \<in> {''SSH_AUTH_SOCK'', ''/ssh-agent'', ''known_hosts''}.
               (\<forall>t \<in> set (linux_texts env img p oc av). \<not> sublist n t) \<longrightarrow> \<not> sublist n command)
            \<and> (\<not> truthy (sshPublicKeysDirectoryPath p)
                 \<and> (\<forall>t \<in> set (linux_texts env img p oc av). \<not> sublist ''.ssh'' t)
                 \<longrightarrow> \<not> sublist ''.ssh'' command))
       \<and> (truthy (sshAgent p) \<and> \<not> truthy (sshPublicKeysDirectoryPath p) \<longrightarrow>
            sublist ''--volume /home/runner/.ssh/known_hosts:/root/.ssh/known_hosts:ro'' command
            \<and> ((\<forall>t \<in> set (linux_texts env img p oc av). \<not> sublist '':/root/.ssh:ro'' t)
                 \<longrightarrow> \<not> sublist '':/root/.ssh:ro'' command))
       \<and> (\<forall>d. sshPublicKeysDirectoryPath p = Some d \<and> d \<noteq> [] \<longrightarrow>
            sublist (''--volume '' @ d @ '':/root/.ssh:ro'') command
            \<and> ((\<forall>t \<in> set (linux_texts env img p oc av). \<not> sublist ''known_hosts'' t)
                 \<longrightarrow> \<not> sublist ''known_hosts'' command))"
proof -
  from assms have c: "command = continued (linuxCommandLines env img p oc av eb)"
    by (auto dest!: getLinuxCommand_text)
  have a1: "\<not> sublist ''SSH_AUTH_SOCK'' command"
    if "\<not> truthy (sshAgent p)" "\<forall>t \<in> set (linux_texts env img p oc av). \<not> sublist ''SSH_AUTH_SOCK'' t"
    using linux_lines_free_auth_sock[OF that, of eb] by (simp add: c sublist_continued)
  have a2: "\<not> sublist ''/ssh-agent'' command"
    if "\<not> truthy (sshAgent p)" "\<forall>t \<in> set (linux_texts env img p oc av). \<not> sublist ''/ssh-agent'' t"
    using linux_lines_free_agent_mount[OF that, of eb] by (simp add: c sublist_continued)
  have a3: "\<not> sublist ''known_hosts'' command"
    if "\<not> truthy (sshAgent p) \<or> truthy (sshPublicKeysDirectoryPath p)"
       "\<forall>t \<in> set (linux_texts env img p oc av). \<not> sublist ''known_hosts'' t"
    using linux_lines_free_known_hosts[OF that, of eb] by (simp add: c sublist_continued)
  have a4: "\<not> sublist ''.ssh'' command"
    if "\<not> truthy (sshAgent p) \<and> \<not> truthy (sshPublicKeysDirectoryPath p)"
       "\<forall>t \<in> set (linux_texts env img p oc av). \<not> sublist ''.ssh'' t"
    using linux_lines_free_dot_ssh[OF that, of eb] by (simp add: c sublist_continued)
  have b1: "sublist ''--volume /home/runner/.ssh/known_hosts:/root/.ssh/known_hosts:ro'' command"
    if "truthy (sshAgent p)" "\<not> truthy (sshPublicKeysDirectoryPath p)"
    unfolding c by (rule line_sublist_continued[OF known_hosts_line[OF that]])
  have b2: "\<not> sublist '':/root/.ssh:ro'' command"
    if "\<not> truthy (sshPublicKeysDirectoryPath p)"
       "\<forall>t \<in> set (linux_texts env img p oc av). \<not> sublist '':/root/.ssh:ro'' t"
    using linux_lines_free_keys_mount[OF that, of eb] by (simp add: c sublist_continued)
  have c1: "sublist (''--volume '' @ d @ '':/root/.ssh:ro'') command"
    if "sshPublicKeysDirectoryPath p = Some d" "d \<noteq> []" for d
    unfolding c by (rule line_sublist_continued[OF keys_mount_line[OF that]])
  have c2: "truthy (sshPublicKeysDirectoryPath p)"
    if "sshPublicKeysDirectoryPath p = Some d" "d \<noteq> []" for d
    using that by (simp add: truthy_simps)
  from a1 a2 a3 a4 b1 b2 c1 c2 show ?thesis by blast
qed

theorem linux_ssh_fragments_witness:
  "(\<exists>command w'. getLinuxCommand (fresh_host ''linux'' 0) example_env ''unityci/editor'' example_parameters
                     [] [] False = (Inr command, w')
       \<and> \<not> sublist ''SSH_AUTH_SOCK'' command \<and> \<not> sublist ''/ssh-agent'' command
       \<and> \<not> sublist ''known_hosts'' command \<and> \<not> sublist ''.ssh'' command)
   \<and> (\<exists>command w'. getLinuxCommand (fresh_host ''linux'' 0) example_env ''unityci/editor'' agent_parameters
                     [] [] False = (Inr command, w')
       \<and> sublist ''--volume /home/runner/.ssh/known_hosts:/root/.ssh/known_hosts:ro'' command
       \<and> \<not> sublist '':/root/.ssh:ro'' command)
   \<and> (\<exists>command w'. getLinuxCommand (fresh_host ''linux'' 0) example_env ''unityci/editor''
                     agent_keys_parameters [] [] False = (Inr command, w')
       \<and> sublist (''--volume '' @ ''/home/runner/keys'' @ '':/root/.ssh:ro'') command
       \<and> \<not> sublist ''known_hosts'' command)"
proof -
  have perm: "permitted (fresh_host ''linux'' 0) = (\<lambda>p. True)" by (simp add: fresh_host_def)
  obtain c1 w1 where 1: "getLinuxCommand (fresh_host ''linux'' 0) example_env ''unityci/editor''
       example_parameters [] [] False = (Inr c1, w1)"
    using fresh_host_builds[OF perm] by blast
  obtain c2 w2 where 2: "getLinuxCommand (fresh_host ''linux'' 0) example_env ''unityci/editor''
       agent_parameters [] [] False = (Inr c2, w2)"
    using fresh_host_builds[OF perm] by blast
  obtain c3 w3 where 3: "getLinuxCommand (fresh_host ''linux'' 0) example_env ''unityci/editor''
       agent_keys_parameters [] [] False = (Inr c3, w3)"
    using fresh_host_builds[OF perm] by blast
  have t1: "\<not> truthy (sshAgent example_parameters)
            \<and> \<not> truthy (sshPublicKeysDirectoryPath example_parameters)"
    by (simp add: truthy_simps example_parameters_def)
  have t2: "truthy (sshAgent agent_parameters) \<and> \<not> truthy (sshPublicKeysDirectoryPath agent_parameters)"
    by (simp add: truthy_simps agent_parameters_def example_parameters_def)
  have t3: "sshPublicKeysDirectoryPath agent_keys_parameters = Some ''/home/runner/keys''
            \<and> ''/home/runner/keys'' \<noteq> []"
    by (simp add: agent_keys_parameters_def)
  have f1: "\<forall>n \<in> {''SSH_AUTH_SOCK'', ''/ssh-agent'', ''known_hosts'', ''.ssh''}.
              \<forall>t \<in> set (linux_texts example_env ''unityci/editor'' example_parameters [] []).
                \<not> sublist n t"
    unfolding example_linux_texts by (simp add: sublist_Cons_both)
  have f2: "\<forall>t \<in> set (linux_texts example_env ''unityci/editor'' agent_parameters [] []).
             \<not> sublist '':/root/.ssh:ro'' t"
    unfolding example_variant_texts example_linux_texts by (simp add: sublist_Cons_both)
  have f3: "\<forall>t \<in> set (linux_texts example_env ''unityci/editor'' agent_keys_parameters [] []).
             \<not> sublist ''known_hosts'' t"
    unfolding example_variant_texts example_linux_texts by (simp add: sublist_Cons_both)
  from linux_ssh_fragments[OF 1] t1 f1
  have r1: "\<not> sublist ''SSH_AUTH_SOCK'' c1 \<and> \<not> sublist ''/ssh-agent'' c1
       \<and> \<not> sublist ''known_hosts'' c1 \<and> \<not> sublist ''.ssh'' c1" by blast
  from linux_ssh_fragments[OF 2] t2 f2
  have r2: "sublist ''--volume /home/runner/.ssh/known_hosts:/root/.ssh/known_hosts:ro'' c2
       \<and> \<not> sublist '':/root/.ssh:ro'' c2" by blast
  from linux_ssh_fragments[OF 3] t3 f3
  have r3: "sublist (''--volume '' @ ''/home/runner/keys'' @ '':/root/.ssh:ro'') c3
       \<and> \<not> sublist ''known_hosts'' c3" by blast
  from 1 2 3 r1 r2 r3 show ?thesis by blast
qed

text \<open>
  With \<^verbatim>\<open>sshAgent\<close> unset and \<^verbatim>\<open>sshPublicKeysDirectoryPath\<close> set, the Linux command
  carries the public-keys mount: \<^verbatim>\<open>.ssh\<close> occurs in it, and in none of the caller's texts.
\<close>

theorem public_keys_mount_without_agent:
  "\<not> truthy (sshAgent keys_only_parameters)
   \<and> \<not> list_ex (sublist ''.ssh'') (linux_texts example_env ''unityci/editor'' keys_only_parameters [] [])
   \<and> fst (getLinuxCommand (fresh_host ''linux'' 0) example_env ''unityci/editor'' keys_only_parameters
            [] [] False)
       = Inr (continued (linuxCommandLines example_env ''unityci/editor'' keys_only_parameters [] [] False))
   \<and> sublist (''--volume '' @ ''/home/runner/keys'' @ '':/root/.ssh:ro'')
        (continued (linuxCommandLines example_env ''unityci/editor'' keys_only_parameters [] [] False))
   \<and> sublist ''.ssh''
        (continued (linuxCommandLines example_env ''unityci/editor'' keys_only_parameters [] [] False))"
proof -
  have perm: "permitted (fresh_host ''linux'' 0) = (\<lambda>p. True)" by (simp add: fresh_host_def)
  have a: "\<not> truthy (sshAgent keys_only_parameters)"
    by (simp add: truthy_simps keys_only_parameters_def example_parameters_def)
  have b: "\<not> list_ex (sublist ''.ssh'')
               (linux_texts example_env ''unityci/editor'' keys_only_parameters [] [])"
    unfolding example_variant_texts example_linux_texts by (simp add: sublist_Cons_both)
  have c: "fst (getLinuxCommand (fresh_host ''linux'' 0) example_env ''unityci/editor''
                  keys_only_parameters [] [] False)
       = Inr (continued (linuxCommandLines example_env ''unityci/editor'' keys_only_parameters [] [] False))"
    using fresh_host_builds[OF perm, of example_env "''unityci/editor''" keys_only_parameters "[]" "[]" False]
    by auto
  have "''--volume '' @ ''/home/runner/keys'' @ '':/root/.ssh:ro''
          \<in> set (linuxCommandLines example_env ''unityci/editor'' keys_only_parameters [] [] False)"
    by (rule keys_mount_line) (simp_all add: keys_only_parameters_def)
  from line_sublist_continued[OF this]
  have d: "sublist (''--volume '' @ ''/home/runner/keys'' @ '':/root/.ssh:ro'')
        (continued (linuxCommandLines example_env ''unityci/editor'' keys_only_parameters [] [] False))" .
  have "sublist ''.ssh'' (''--volume '' @ ''/home/runner/keys'' @ '':/root/.ssh:ro'')"
    by (simp add: sublist_Cons_both)
  from sublist_order.order.trans[OF this d] have e: "sublist ''.ssh''
        (continued (linuxCommandLines example_env ''unityci/editor'' keys_only_parameters [] [] False))" .
  from a b c d e show ?thesis by blast
qed

end
